theory Spec2Isabelle
  imports Main "HOL-Library.Sublist" "HOL-Library.Char_ord" "HOL-Library.List_Lexorder"
    "HOL-Library.Multiset"
begin

section \<open>Python strings\<close>

text \<open>
  A Python \<open>str\<close> is modelled as a \<open>string\<close>, one \<open>char\<close> per code point, for the code
  points below 256. \<open>str.strip()\<close> removes the characters for which \<open>str.isspace\<close>
  holds; below 256 these are 9 to 13, 28 to 32, 133 and 160. \<open>str.lower()\<close> and
  \<open>str.upper()\<close> are modelled on the ASCII letters; the other characters are left alone
  by the model (Python maps some Latin-1 letters too), so statements about case
  conversion are made for ASCII text.
\<close>

definition isspace :: "char \<Rightarrow> bool" where
  "isspace c =
     (let n = (of_char c :: nat)
      in (9 \<le> n \<and> n \<le> 13) \<or> (28 \<le> n \<and> n \<le> 32) \<or> n = 133 \<or> n = 160)"

definition strip :: "string \<Rightarrow> string" where
  "strip s = rev (dropWhile isspace (rev (dropWhile isspace s)))"

definition lower_char :: "char \<Rightarrow> char" where
  "lower_char c =
     (let n = (of_char c :: nat) in if 65 \<le> n \<and> n \<le> 90 then char_of (n + 32) else c)"

definition upper_char :: "char \<Rightarrow> char" where
  "upper_char c =
     (let n = (of_char c :: nat) in if 97 \<le> n \<and> n \<le> 122 then char_of (n - 32) else c)"

definition lower :: "string \<Rightarrow> string" where
  "lower s = map lower_char s"

definition is_ascii :: "string \<Rightarrow> bool" where
  "is_ascii s = list_all (\<lambda>c. (of_char c :: nat) < 128) s"


section \<open>The session store: \<open>session_manager.py\<close>\<close>

text \<open>
  The two tables of \<open>chat_sessions.db\<close> are lists of rows in rowid order. A statement
  \<open>UPDATE ... WHERE\<close> maps over the rows, \<open>DELETE ... WHERE\<close> filters them,
  \<open>SELECT ... fetchone()\<close> finds the first matching row. \<open>message_id\<close> is
  \<open>INTEGER PRIMARY KEY AUTOINCREMENT\<close>: a new row gets one more than the largest id
  the table has ever held, which \<open>message_seq\<close> remembers. Timestamps are the text of
  \<open>datetime.now().isoformat()\<close>, handed to each operation as \<open>now\<close>.

  Every operation runs its statements inside \<open>with sqlite3.connect(...)\<close>, which commits
  them together. The model is of a store whose statements succeed; a failing statement
  would roll the operation back and leave the tables as they were.
\<close>

record chat_session =
  session_id :: string
  user_login :: string
  session_title :: "string option"
  created_at :: string
  last_updated :: string
  message_count :: int
  is_active :: bool

record chat_message =
  message_id :: nat
  msg_session_id :: string
  role :: string
  content :: string
  msg_timestamp :: string
  message_index :: int

record sessions_db =
  chat_sessions :: "chat_session list"
  chat_messages :: "chat_message list"
  message_seq :: nat

definition next_message_id :: "sessions_db \<Rightarrow> nat" where
  "next_message_id db = Suc (fold max (map message_id (chat_messages db)) (message_seq db))"

definition count_messages :: "string \<Rightarrow> chat_message list \<Rightarrow> int" where
  \<comment> \<open>\<open>SELECT COUNT(*) FROM chat_messages WHERE session_id = ?\<close>\<close>
  "count_messages sid ms = int (length (filter (\<lambda>m. msg_session_id m = sid) ms))"

definition save_message ::
  "string \<Rightarrow> string \<Rightarrow> string \<Rightarrow> string \<Rightarrow> int \<Rightarrow> sessions_db \<Rightarrow> sessions_db" where
  "save_message now sid rl cnt idx db =
     (let mid = next_message_id db;
          ms = chat_messages db @
               [\<lparr>message_id = mid, msg_session_id = sid, role = rl, content = cnt,
                 msg_timestamp = now, message_index = idx\<rparr>]
      in db\<lparr>chat_messages := ms,
            message_seq := mid,
            chat_sessions :=
              map (\<lambda>s. if session_id s = sid
                        then s\<lparr>last_updated := now, message_count := count_messages sid ms\<rparr>
                        else s)
                  (chat_sessions db)\<rparr>)"

definition load_session_messages :: "string \<Rightarrow> sessions_db \<Rightarrow> chat_message list" where
  \<comment> \<open>\<open>SELECT ... WHERE session_id = ? ORDER BY message_index ASC\<close>\<close>
  "load_session_messages sid db =
     sort_key message_index (filter (\<lambda>m. msg_session_id m = sid) (chat_messages db))"


definition delete_session :: "string \<Rightarrow> string \<Rightarrow> sessions_db \<Rightarrow> bool \<times> sessions_db" where
  "delete_session sid login db =
     (case find (\<lambda>s. session_id s = sid) (chat_sessions db) of
        None \<Rightarrow> (False, db)
      | Some s \<Rightarrow>
          if user_login s \<noteq> login then (False, db)
          else (True,
                db\<lparr>chat_messages := filter (\<lambda>m. msg_session_id m \<noteq> sid) (chat_messages db),
                   chat_sessions := filter (\<lambda>s. session_id s \<noteq> sid) (chat_sessions db)\<rparr>))"

subsection \<open>\<open>generate_session_title\<close>\<close>

text \<open>
  The two \<open>strftime\<close> renderings of the clock that the function may embed in a default
  title are parameters: \<open>stamp_long\<close> is \<open>'%Y-%m-%d %H:%M'\<close>, \<open>stamp_short\<close> is \<open>'%H:%M'\<close>.
\<close>

definition prefixes_to_remove :: "string list" where
  "prefixes_to_remove =
     [''what is'', ''what are'', ''how do'', ''how to'', ''can you'', ''please'', ''help me'']"

fun remove_first_prefix :: "string list \<Rightarrow> string \<Rightarrow> string \<Rightarrow> string" where
  \<comment> \<open>the \<open>for prefix in prefixes_to_remove\<close> loop, left at the first match by \<open>break\<close>\<close>
  "remove_first_prefix [] lower_message clean_message = clean_message"
| "remove_first_prefix (p # ps) lower_message clean_message =
     (if prefix p lower_message then strip (drop (length p) clean_message)
      else remove_first_prefix ps lower_message clean_message)"

definition generate_session_title :: "string \<Rightarrow> string \<Rightarrow> string \<Rightarrow> string" where
  "generate_session_title stamp_long stamp_short first_message =
     (if first_message = [] then ''Chat Session - '' @ stamp_long
      else
        let clean_message = strip first_message;
            clean_message = (if length clean_message > 50 then take 47 clean_message @ ''...''
                             else clean_message);
            lower_message = lower clean_message;
            clean_message = remove_first_prefix prefixes_to_remove lower_message clean_message;
            clean_message = (case clean_message of [] \<Rightarrow> []
                             | c # cs \<Rightarrow> upper_char c # cs)
        in if clean_message = [] then ''Chat - '' @ stamp_short else clean_message)"

subsection \<open>\<open>save_current_session\<close> of \<open>session_ui.py\<close>\<close>








section \<open>The history log: \<open>search_history.py\<close>\<close>

subsection \<open>JSON values and JSON text\<close>

text \<open>
  The values that \<open>json.loads\<close> returns: \<open>None\<close>, booleans, integers, strings, lists and
  dicts (a dict by its items, looked up by key). JSON numbers with a fraction are
  outside the model.

  A text that is read with \<open>json.loads\<close> is modelled by what \<open>json.loads\<close> makes of it:
  the value it denotes, or else that it is empty, or malformed in another way. On both
  of the latter \<open>json.loads\<close> raises \<open>JSONDecodeError\<close>, a \<open>ValueError\<close>; only the empty
  text is falsy for Python's \<open>or\<close>. \<open>json.dumps\<close> writes a text that denotes its argument.
\<close>

datatype json =
    JNull
  | JBool bool
  | JInt int
  | JStr string
  | JArr "json list"
  | JObj "(string \<times> json) list"

datatype json_text = Json_text json | Malformed_text | Empty_text

definition json_loads :: "json_text \<Rightarrow> json option" where
  "json_loads t = (case t of Json_text v \<Rightarrow> Some v | Malformed_text \<Rightarrow> None | Empty_text \<Rightarrow> None)"

definition json_dumps :: "json \<Rightarrow> json_text" where
  "json_dumps v = Json_text v"

definition truthy :: "json \<Rightarrow> bool" where
  \<comment> \<open>Python's truth value of an object\<close>
  "truthy v =
     (case v of JNull \<Rightarrow> False | JBool b \<Rightarrow> b | JInt n \<Rightarrow> n \<noteq> 0 | JStr s \<Rightarrow> s \<noteq> []
      | JArr xs \<Rightarrow> xs \<noteq> [] | JObj kvs \<Rightarrow> kvs \<noteq> [])"

definition dict_get :: "(string \<times> json) list \<Rightarrow> string \<Rightarrow> json \<Rightarrow> json" where
  \<comment> \<open>\<open>d.get(key, default)\<close>\<close>
  "dict_get kvs k d = (case map_of kvs k of None \<Rightarrow> d | Some v \<Rightarrow> v)"

subsection \<open>The extraction adapter and \<open>extract_product_info\<close>\<close>

text \<open>
  \<open>chain.invoke\<close>, the call of the language model, is a parameter: given the query and
  the response it raises, or it returns a message whose \<open>tool_calls\<close> are a list. Of a
  tool call the code reads \<open>["function"]["arguments"]\<close>: a text, or the lookup raises
  \<open>KeyError\<close> or \<open>TypeError\<close> (\<open>No_arguments\<close>).
\<close>

datatype tool_call = Arguments json_text | No_arguments

datatype adapter_result = Adapter_raises | Adapter_returns "tool_call list"

datatype error = AdapterError | AttributeError | BindingError

record parsed_data =
  pd_product_brand :: json
  pd_product_model :: json
  pd_price_details :: json
  pd_vendors :: json
  pd_notes :: json
  pd_verified_urls :: json
  pd_source :: string

definition parse_tool_calls :: "tool_call list \<Rightarrow> json" where
  \<comment> \<open>\<open>parsed_json\<close>: the arguments of the first tool call, \<open>{}\<close> when there is none or
      when reading them raises \<open>KeyError\<close>, \<open>ValueError\<close> or \<open>TypeError\<close>\<close>
  "parse_tool_calls tool_calls =
     (case tool_calls of
        [] \<Rightarrow> JObj []
      | tc # _ \<Rightarrow>
          (case tc of
             No_arguments \<Rightarrow> JObj []
           | Arguments t \<Rightarrow> (case json_loads t of None \<Rightarrow> JObj [] | Some v \<Rightarrow> v)))"

definition extract_product_info ::
  "(string \<Rightarrow> string \<Rightarrow> adapter_result) \<Rightarrow> string \<Rightarrow> string \<Rightarrow> error + parsed_data" where
  \<comment> \<open>\<open>parsed_json.get\<close> exists only on a dict: on any other value it raises
      \<open>AttributeError\<close>, which nothing in the function catches\<close>
  "extract_product_info chain_invoke query response =
     (case chain_invoke query response of
        Adapter_raises \<Rightarrow> Inl AdapterError
      | Adapter_returns tool_calls \<Rightarrow>
          (case parse_tool_calls tool_calls of
             JObj kvs \<Rightarrow>
               let urls = dict_get kvs ''verified_urls'' (JArr [])
               in Inr \<lparr>pd_product_brand = dict_get kvs ''product_brand'' (JStr ''''),
                       pd_product_model = dict_get kvs ''product_model'' (JStr ''''),
                       pd_price_details = dict_get kvs ''price_details'' (JArr []),
                       pd_vendors = dict_get kvs ''vendors'' (JArr []),
                       pd_notes = dict_get kvs ''notes'' (JStr ''''),
                       pd_verified_urls = urls,
                       pd_source = (if truthy urls then ''web'' else ''database'')\<rparr>
           | _ \<Rightarrow> Inl AttributeError))"

subsection \<open>The table \<open>search_history\<close> and \<open>log_search\<close>\<close>

text \<open>
  A row of \<open>search_history\<close>, with the three JSON columns of type \<open>'j\<close>: a text or
  \<open>NULL\<close> in the table, a value in the records that \<open>get_search_history\<close> returns. The
  \<open>timestamp\<close> is the text \<open>CURRENT_TIMESTAMP\<close> wrote, handed to \<open>log_search\<close> as \<open>now\<close>;
  SQLite compares texts byte by byte, which is the lexicographic order on \<open>string\<close>.
\<close>

record 'j history =
  record_id :: nat
  timestamp :: string
  user_query :: string
  product_brand :: "string option"
  product_model :: "string option"
  price_details :: 'j
  vendors :: 'j
  verified_urls :: 'j
  source :: "string option"
  hist_notes :: "string option"
  hist_session_id :: "string option"

record history_db =
  search_history :: "json_text option history list"
  search_history_seq :: nat

definition next_record_id :: "history_db \<Rightarrow> nat" where
  "next_record_id db = Suc (fold max (map record_id (search_history db)) (search_history_seq db))"

fun nat_text :: "nat \<Rightarrow> string" where
  "nat_text n =
     (if n < 10 then [char_of (48 + n)] else nat_text (n div 10) @ [char_of (48 + n mod 10)])"

declare nat_text.simps [simp del]

definition int_text :: "int \<Rightarrow> string" where
  "int_text i = (if i < 0 then CHR ''-'' # nat_text (nat (- i)) else nat_text (nat i))"

definition bind_text :: "json \<Rightarrow> error + string option" where
  \<comment> \<open>a Python value bound to a \<open>?\<close> of a \<open>TEXT\<close> column: \<open>None\<close> is \<open>NULL\<close>, an integer
      within 64 bits is stored as its decimal text, a list or a dict is refused\<close>
  "bind_text v =
     (case v of
        JNull \<Rightarrow> Inr None
      | JBool b \<Rightarrow> Inr (Some (if b then ''1'' else ''0''))
      | JInt n \<Rightarrow> if - (2 ^ 63) \<le> n \<and> n < 2 ^ 63 then Inr (Some (int_text n)) else Inl BindingError
      | JStr s \<Rightarrow> Inr (Some s)
      | JArr _ \<Rightarrow> Inl BindingError
      | JObj _ \<Rightarrow> Inl BindingError)"

definition log_search_insert ::
  "(string \<Rightarrow> string \<Rightarrow> adapter_result) \<Rightarrow> string \<Rightarrow> string \<Rightarrow> string \<Rightarrow> string \<Rightarrow>
   history_db \<Rightarrow> error + nat \<times> history_db" where
  \<comment> \<open>the body of the \<open>try\<close> block\<close>
  "log_search_insert chain_invoke now query agent_response sid db =
     (case extract_product_info chain_invoke query agent_response of
        Inl e \<Rightarrow> Inl e
      | Inr pd \<Rightarrow>
          (case bind_text (pd_product_brand pd) of
             Inl e \<Rightarrow> Inl e
           | Inr brand \<Rightarrow>
               (case bind_text (pd_product_model pd) of
                  Inl e \<Rightarrow> Inl e
                | Inr model \<Rightarrow>
                    (case bind_text (pd_notes pd) of
                       Inl e \<Rightarrow> Inl e
                     | Inr nts \<Rightarrow>
                         let rid = next_record_id db
                         in Inr (rid,
                                 db\<lparr>search_history := search_history db @
                                      [\<lparr>record_id = rid, timestamp = now, user_query = query,
                                        product_brand = brand, product_model = model,
                                        price_details = Some (json_dumps (pd_price_details pd)),
                                        vendors = Some (json_dumps (pd_vendors pd)),
                                        verified_urls = Some (json_dumps (pd_verified_urls pd)),
                                        source = Some (pd_source pd), hist_notes = nts,
                                        hist_session_id = Some sid\<rparr>],
                                    search_history_seq := rid\<rparr>)))))"

definition log_search ::
  "(string \<Rightarrow> string \<Rightarrow> adapter_result) \<Rightarrow> string \<Rightarrow> string \<Rightarrow> string \<Rightarrow> string \<Rightarrow>
   string \<Rightarrow> string \<Rightarrow> history_db \<Rightarrow> int \<times> history_db" where
  \<comment> \<open>the arguments \<open>source\<close> and \<open>notes\<close> are overwritten from \<open>parsed_data\<close>, which
      always holds both keys; \<open>except Exception\<close> turns every error into \<open>-1\<close>\<close>
  "log_search chain_invoke now query agent_response sid source_arg notes_arg db =
     (case log_search_insert chain_invoke now query agent_response sid db of
        Inl e \<Rightarrow> (- 1, db)
      | Inr (rid, db') \<Rightarrow> (int rid, db'))"

subsection \<open>\<open>get_search_history\<close>\<close>

text \<open>
  SQLite's \<open>LIKE\<close>: in the pattern \<open>%\<close> stands for any text and \<open>_\<close> for any one
  character; every other character stands for itself, the ASCII letters without
  regard to case. \<open>LIKE\<close> on \<open>NULL\<close> is not true.
\<close>

fun sql_like :: "string \<Rightarrow> string \<Rightarrow> bool" where
  "sql_like [] [] = True"
| "sql_like [] (c # cs) = False"
| "sql_like (p # ps) [] = (p = CHR ''%'' \<and> sql_like ps [])"
| "sql_like (p # ps) (c # cs) =
     (if p = CHR ''%'' then sql_like ps (c # cs) \<or> sql_like (p # ps) cs
      else if p = CHR ''_'' then sql_like ps cs
      else lower_char p = lower_char c \<and> sql_like ps cs)"

definition like_filter :: "string \<Rightarrow> string option \<Rightarrow> bool" where
  \<comment> \<open>\<open>column LIKE ?\<close> with the parameter \<open>f"%{filter}%"\<close>\<close>
  "like_filter f col =
     (case col of None \<Rightarrow> False | Some t \<Rightarrow> sql_like (CHR ''%'' # f @ ''%'') t)"

definition row_selected ::
  "('d \<Rightarrow> string) \<Rightarrow> string option \<Rightarrow> string option \<Rightarrow> 'd option \<Rightarrow> 'd option \<Rightarrow>
   string option \<Rightarrow> 'j history \<Rightarrow> bool" where
  \<comment> \<open>the \<open>WHERE\<close> clause that the function builds: a filter that is \<open>None\<close> or empty
      adds no condition\<close>
  "row_selected strftime brand_filter model_filter date_from date_to session_filter r =
     ((case brand_filter of None \<Rightarrow> True
       | Some f \<Rightarrow> f = [] \<or> like_filter f (product_brand r)) \<and>
      (case model_filter of None \<Rightarrow> True
       | Some f \<Rightarrow> f = [] \<or> like_filter f (product_model r)) \<and>
      (case date_from of None \<Rightarrow> True | Some d \<Rightarrow> strftime d \<le> timestamp r) \<and>
      (case date_to of None \<Rightarrow> True | Some d \<Rightarrow> timestamp r \<le> strftime d) \<and>
      (case session_filter of None \<Rightarrow> True
       | Some s \<Rightarrow> s = [] \<or> hist_session_id r = Some s))"



definition order_by_timestamp_desc :: "'j history list \<Rightarrow> 'j history list" where
  "order_by_timestamp_desc rs = rev (sort_key timestamp rs)"

definition in_int64 :: "int \<Rightarrow> bool" where
  \<comment> \<open>the integers that \<open>sqlite3\<close> binds to a \<open>?\<close>; on any other it raises
      \<open>OverflowError\<close>\<close>
  "in_int64 i = (- (2 ^ 63) \<le> i \<and> i < 2 ^ 63)"

definition limit_offset :: "int \<Rightarrow> int \<Rightarrow> 'a list \<Rightarrow> 'a list" where
  \<comment> \<open>\<open>LIMIT ? OFFSET ?\<close>: a negative limit is no limit, a negative offset is 0\<close>
  "limit_offset limit offset xs =
     (let ys = drop (nat offset) xs in if limit < 0 then ys else take (nat limit) ys)"

definition parse_json_column :: "json_text option \<Rightarrow> json" where
  \<comment> \<open>\<open>try: json.loads(column or '[]')  except: []\<close>\<close>
  "parse_json_column col =
     (let text = (case col of None \<Rightarrow> Json_text (JArr [])
                  | Some t \<Rightarrow> if t = Empty_text then Json_text (JArr []) else t)
      in case json_loads text of None \<Rightarrow> JArr [] | Some v \<Rightarrow> v)"

definition parse_row :: "json_text option history \<Rightarrow> json history" where
  "parse_row r =
     \<lparr>record_id = record_id r, timestamp = timestamp r, user_query = user_query r,
      product_brand = product_brand r, product_model = product_model r,
      price_details = parse_json_column (price_details r),
      vendors = parse_json_column (vendors r),
      verified_urls = parse_json_column (verified_urls r),
      source = source r, hist_notes = hist_notes r, hist_session_id = hist_session_id r\<rparr>"

definition get_search_history ::
  "(json_text option history list \<Rightarrow> json_text option history list) \<Rightarrow> ('d \<Rightarrow> string) \<Rightarrow>
   int \<Rightarrow> int \<Rightarrow> string option \<Rightarrow> string option \<Rightarrow> 'd option \<Rightarrow> 'd option \<Rightarrow>
   string option \<Rightarrow> history_db \<Rightarrow> json history list" where
  \<comment> \<open>when \<open>limit\<close> or \<open>offset\<close> cannot be bound, \<open>cursor.execute\<close> raises and the
      function returns \<open>[]\<close> from its \<open>except\<close>\<close>
  "get_search_history order_by strftime limit offset brand_filter model_filter date_from date_to
     session_filter db =
     (if in_int64 limit \<and> in_int64 offset
      then
        map parse_row
          (limit_offset limit offset
             (order_by
                (filter
                   (row_selected strftime brand_filter model_filter date_from date_to
                      session_filter)
                   (search_history db))))
      else [])"

subsection \<open>Dates and the two clocks\<close>

















subsection \<open>\<open>clear_history\<close>\<close>


subsection \<open>\<open>export_to_csv\<close> and \<open>_format_price_range\<close>\<close>

text \<open>
  \<open>fmt2f v\<close> stands for Python's \<open>format(v, ',.2f')\<close> of a number. A result \<open>None\<close> of
  the functions below says that the Python raises: iterating, indexing, \<open>len\<close>, \<open>min\<close>,
  \<open>max\<close>, \<open>join\<close> or formatting meets a value of the wrong type (\<open>TypeError\<close>,
  \<open>ValueError\<close>) or a dict without the key (\<open>KeyError\<close>). \<open>those\<close> collects the results
  of a comprehension, and is \<open>None\<close> as soon as one element raises.
\<close>

definition py_iter :: "json \<Rightarrow> json list option" where
  \<comment> \<open>the elements that \<open>for p in v\<close> visits\<close>
  "py_iter v =
     (case v of
        JArr xs \<Rightarrow> Some xs
      | JStr s \<Rightarrow> Some (map (\<lambda>c. JStr [c]) s)
      | JObj kvs \<Rightarrow> Some (map (\<lambda>kv. JStr (fst kv)) kvs)
      | _ \<Rightarrow> None)"

definition py_len :: "json \<Rightarrow> nat option" where
  "py_len v =
     (case v of JArr xs \<Rightarrow> Some (length xs) | JStr s \<Rightarrow> Some (length s)
      | JObj kvs \<Rightarrow> Some (length kvs) | _ \<Rightarrow> None)"

definition price_value :: "json \<Rightarrow> json option" where
  \<comment> \<open>\<open>p['value']\<close>\<close>
  "price_value p = (case p of JObj kvs \<Rightarrow> map_of kvs ''value'' | _ \<Rightarrow> None)"

definition as_number :: "json \<Rightarrow> int option" where
  \<comment> \<open>the numbers: integers, and the booleans, which Python counts as 1 and 0\<close>
  "as_number v =
     (case v of JInt n \<Rightarrow> Some n | JBool b \<Rightarrow> Some (if b then 1 else 0) | _ \<Rightarrow> None)"

definition format_price_range :: "(int \<Rightarrow> string) \<Rightarrow> json \<Rightarrow> string option" where
  \<comment> \<open>\<open>_format_price_range\<close>. With two prices or more, \<open>min\<close>, \<open>max\<close> and the formatting
      all succeed exactly when every price is a number: a number does not compare with
      a value of another type, and other values do not format with \<open>,.2f\<close>\<close>
  "format_price_range fmt2f details =
     (if \<not> truthy details then Some ''No prices''
      else
        case py_iter details of
          None \<Rightarrow> None
        | Some ps \<Rightarrow>
            (case those (map price_value ps) of
               None \<Rightarrow> None
             | Some prices \<Rightarrow>
                 (case those (map as_number prices) of
                    None \<Rightarrow> None
                  | Some ns \<Rightarrow>
                      (case ns of
                         [] \<Rightarrow> None
                       | [n] \<Rightarrow> Some (''$'' @ fmt2f n)
                       | n # ns' \<Rightarrow>
                           Some (''$'' @ fmt2f (fold min ns' n) @ '' - $'' @
                                 fmt2f (fold max ns' n))))))"

fun join :: "string \<Rightarrow> string list \<Rightarrow> string" where
  "join sep [] = []"
| "join sep [x] = x"
| "join sep (x # y # ys) = x @ sep @ join sep (y # ys)"

definition as_str :: "json \<Rightarrow> string option" where
  "as_str v = (case v of JStr s \<Rightarrow> Some s | _ \<Rightarrow> None)"

definition join_vendors :: "json \<Rightarrow> string option" where
  \<comment> \<open>\<open>', '.join(record['vendors'])\<close>\<close>
  "join_vendors v =
     (case py_iter v of
        None \<Rightarrow> None
      | Some xs \<Rightarrow> (case those (map as_str xs) of None \<Rightarrow> None
                    | Some ss \<Rightarrow> Some (join '', '' ss)))"

definition or_empty :: "string option \<Rightarrow> string" where
  \<comment> \<open>\<open>column or ''\<close>\<close>
  "or_empty col = (case col of None \<Rightarrow> [] | Some s \<Rightarrow> s)"

record csv_row =
  Record_ID :: nat
  Timestamp :: string
  User_Query :: string
  Product_Brand :: string
  Product_Model :: string
  Price_Count :: nat
  Price_Range :: string
  Vendors :: string
  URL_Count :: nat
  Source :: "string option"
  Notes :: string

definition csv_row_of :: "(int \<Rightarrow> string) \<Rightarrow> json history \<Rightarrow> csv_row option" where
  "csv_row_of fmt2f r =
     (case py_len (price_details r) of
        None \<Rightarrow> None
      | Some price_count \<Rightarrow>
          (case format_price_range fmt2f (price_details r) of
             None \<Rightarrow> None
           | Some price_range \<Rightarrow>
               (case join_vendors (vendors r) of
                  None \<Rightarrow> None
                | Some vs \<Rightarrow>
                    (case py_len (verified_urls r) of
                       None \<Rightarrow> None
                     | Some url_count \<Rightarrow>
                         Some \<lparr>Record_ID = record_id r, Timestamp = timestamp r,
                               User_Query = user_query r,
                               Product_Brand = or_empty (product_brand r),
                               Product_Model = or_empty (product_model r),
                               Price_Count = price_count, Price_Range = price_range,
                               Vendors = vs, URL_Count = url_count, Source = source r,
                               Notes = or_empty (hist_notes r)\<rparr>))))"

definition export_to_csv ::
  "(int \<Rightarrow> string) \<Rightarrow> (json_text option history list \<Rightarrow> json_text option history list) \<Rightarrow>
   ('d \<Rightarrow> string) \<Rightarrow> string \<Rightarrow> int \<Rightarrow> string option \<Rightarrow> string option \<Rightarrow>
   'd option \<Rightarrow> 'd option \<Rightarrow> string option \<Rightarrow> history_db \<Rightarrow> (string \<times> csv_row list) option" where
  \<comment> \<open>the file name (the one given, or the one the function makes from the clock) and
      the rows written to it, or \<open>None\<close> as the function returns it: when no record is
      selected, and when building a row raises\<close>
  "export_to_csv fmt2f order_by strftime filename offset brand_filter model_filter date_from
     date_to session_filter db =
     (let history = get_search_history order_by strftime 10000 offset brand_filter model_filter
                      date_from date_to session_filter db
      in if history = [] then None
         else case those (map (csv_row_of fmt2f) history) of
                None \<Rightarrow> None
              | Some csv_data \<Rightarrow> Some (filename, csv_data))"


subsection \<open>\<open>log_interaction\<close> of \<open>agent.py\<close>\<close>

text \<open>
  The caller of \<open>log_search\<close>. It picks a source from keywords of the response and
  hands it over as the argument \<open>source\<close>; the record id that comes back is only printed.
\<close>

definition keyword_source :: "string \<Rightarrow> string" where
  "keyword_source agent_response =
     (let l = lower agent_response
      in if sublist ''url:'' l \<or> sublist ''http'' l
         then (if sublist ''price'' l \<or> sublist ''sql'' l then ''both'' else ''web'')
         else ''database'')"

definition log_interaction ::
  "(string \<Rightarrow> string \<Rightarrow> adapter_result) \<Rightarrow> string \<Rightarrow> string \<Rightarrow> string \<Rightarrow> string \<Rightarrow>
   history_db \<Rightarrow> history_db" where
  "log_interaction chain_invoke now query agent_response sid db =
     snd (log_search chain_invoke now query agent_response sid (keyword_source agent_response)
            [] db)"


section \<open>The properties\<close>

subsection \<open>Sessions and their messages\<close>





definition messages_at :: "string \<Rightarrow> int \<Rightarrow> sessions_db \<Rightarrow> chat_message list" where
  \<comment> \<open>the message rows of a session that carry a given index\<close>
  "messages_at sid idx db =
     filter (\<lambda>m. msg_session_id m = sid \<and> message_index m = idx) (chat_messages db)"

text \<open>A store with one session of user Fady that holds one message, and a transcript.\<close>

definition fady_db :: sessions_db where
  "fady_db =
     \<lparr>chat_sessions =
        [\<lparr>session_id = ''s1'', user_login = ''Fady'', session_title = Some ''Chat'',
          created_at = ''2025-01-11T12:00:00'', last_updated = ''2025-01-11T12:00:05'',
          message_count = 1, is_active = True\<rparr>],
      chat_messages =
        [\<lparr>message_id = 1, msg_session_id = ''s1'', role = ''user'', content = ''Hello'',
          msg_timestamp = ''2025-01-11T12:00:05'', message_index = 0\<rparr>],
      message_seq = 1\<rparr>"



subsection \<open>Titles\<close>

text \<open>
  The steps of \<open>generate_session_title\<close> one by one, and their composition in two
  orders: the order in which the specification lists them (trim, strip the lead-in,
  truncate, capitalize), and the order of the code (trim, truncate, strip the lead-in,
  capitalize).
\<close>

definition truncate_title :: "string \<Rightarrow> string" where
  "truncate_title s = (if length s > 50 then take 47 s @ ''...'' else s)"

definition strip_lead_in :: "string \<Rightarrow> string" where
  "strip_lead_in s =
     (case find (\<lambda>p. prefix p (lower s)) prefixes_to_remove of
        None \<Rightarrow> s
      | Some p \<Rightarrow> strip (drop (length p) s))"

definition capitalize_first :: "string \<Rightarrow> string" where
  "capitalize_first s = (case s of [] \<Rightarrow> [] | c # cs \<Rightarrow> upper_char c # cs)"

definition title_in_claimed_order :: "string \<Rightarrow> string \<Rightarrow> string \<Rightarrow> string" where
  "title_in_claimed_order stamp_long stamp_short first_message =
     (if first_message = [] then ''Chat Session - '' @ stamp_long
      else let t = capitalize_first (truncate_title (strip_lead_in (strip first_message)))
           in if t = [] then ''Chat - '' @ stamp_short else t)"

definition title_in_code_order :: "string \<Rightarrow> string \<Rightarrow> string \<Rightarrow> string" where
  "title_in_code_order stamp_long stamp_short first_message =
     (if first_message = [] then ''Chat Session - '' @ stamp_long
      else let t = capitalize_first (strip_lead_in (truncate_title (strip first_message)))
           in if t = [] then ''Chat - '' @ stamp_short else t)"

definition price_question :: string where
  "price_question = ''what is the current price of a Keysight 34401A multimeter''"

subsection \<open>Logging a search\<close>

text \<open>
  Output of the adapter that cannot be read: no tool call, or a first tool call whose
  arguments are missing or are no JSON. \<open>empty_record\<close> is the row that \<open>log_search\<close>
  then writes.
\<close>

definition unparsable :: "tool_call list \<Rightarrow> bool" where
  "unparsable tool_calls =
     (case tool_calls of
        [] \<Rightarrow> True
      | tc # _ \<Rightarrow> (case tc of No_arguments \<Rightarrow> True | Arguments t \<Rightarrow> json_loads t = None))"

definition empty_record ::
  "string \<Rightarrow> string \<Rightarrow> string \<Rightarrow> history_db \<Rightarrow> json_text option history" where
  "empty_record now query sid db =
     \<lparr>record_id = next_record_id db, timestamp = now, user_query = query,
      product_brand = Some [], product_model = Some [],
      price_details = Some (Json_text (JArr [])), vendors = Some (Json_text (JArr [])),
      verified_urls = Some (Json_text (JArr [])), source = Some ''database'',
      hist_notes = Some [], hist_session_id = Some sid\<rparr>"

text \<open>
  \<open>DataInsights\<close> declares \<open>verified_urls\<close> as \<open>Optional[List[str]]\<close>: the value is
  \<open>None\<close> or a list, and the extraction produced a verified URL when the list has an
  element.
\<close>

definition url_list_or_null :: "json \<Rightarrow> bool" where
  "url_list_or_null v = (case v of JNull \<Rightarrow> True | JArr us \<Rightarrow> True | _ \<Rightarrow> False)"

definition has_verified_url :: "json \<Rightarrow> bool" where
  "has_verified_url v = (case v of JArr (u # us) \<Rightarrow> True | _ \<Rightarrow> False)"

text \<open>Adapters and tables for the examples.\<close>

definition empty_history_db :: history_db where
  "empty_history_db = \<lparr>search_history = [], search_history_seq = 0\<rparr>"

definition failing_adapter :: "string \<Rightarrow> string \<Rightarrow> adapter_result" where
  \<comment> \<open>raises\<close>
  "failing_adapter query response = Adapter_raises"

definition moody_adapter :: "string \<Rightarrow> string \<Rightarrow> adapter_result" where
  \<comment> \<open>no tool call on an empty response, and raises on any other\<close>
  "moody_adapter query response = (if response = [] then Adapter_returns [] else Adapter_raises)"

definition listing_adapter :: "string \<Rightarrow> string \<Rightarrow> adapter_result" where
  \<comment> \<open>a filled \<open>DataInsights\<close>: one price, one URL, one vendor\<close>
  "listing_adapter query response =
     Adapter_returns
       [Arguments (Json_text (JObj
          [(''product_brand'', JStr ''Keithley''), (''product_model'', JStr ''DMM6500''),
           (''price_details'', JArr [JStr ''$1,200.00'']),
           (''verified_urls'', JArr [JStr ''https://example.com/dmm6500'']),
           (''notes'', JStr ''one listing''),
           (''vendors'', JArr [JStr ''Example Instruments''])]))]"

definition null_adapter :: "string \<Rightarrow> string \<Rightarrow> adapter_result" where
  \<comment> \<open>a \<open>DataInsights\<close> whose optional fields are all \<open>null\<close>\<close>
  "null_adapter query response =
     Adapter_returns
       [Arguments (Json_text (JObj
          [(''product_brand'', JNull), (''product_model'', JNull), (''price_details'', JNull),
           (''verified_urls'', JNull), (''notes'', JStr ''nothing found''),
           (''vendors'', JNull)]))]"

definition listing_data :: parsed_data where
  "listing_data =
     \<lparr>pd_product_brand = JStr ''Keithley'', pd_product_model = JStr ''DMM6500'',
      pd_price_details = JArr [JStr ''$1,200.00''],
      pd_vendors = JArr [JStr ''Example Instruments''], pd_notes = JStr ''one listing'',
      pd_verified_urls = JArr [JStr ''https://example.com/dmm6500''], pd_source = ''web''\<rparr>"

definition listing_db :: history_db where
  \<comment> \<open>the table after the listing was logged into the empty table\<close>
  "listing_db =
     \<lparr>search_history =
        [\<lparr>record_id = 1, timestamp = ''2025-01-11 12:00:00'',
          user_query = ''current price of DMM6500'', product_brand = Some ''Keithley'',
          product_model = Some ''DMM6500'',
          price_details = Some (Json_text (JArr [JStr ''$1,200.00''])),
          vendors = Some (Json_text (JArr [JStr ''Example Instruments''])),
          verified_urls = Some (Json_text (JArr [JStr ''https://example.com/dmm6500''])),
          source = Some ''web'', hist_notes = Some ''one listing'',
          hist_session_id = Some ''s1''\<rparr>],
      search_history_seq = 1\<rparr>"

subsection \<open>Retrieving the history\<close>







subsection \<open>Retention\<close>









section \<open>Proofs: the session store\<close>



















text \<open>
  Claim C3, as the code has it. \<open>save_message\<close> is an insert, not an upsert: it appends
  one row and keeps every row that was there, so a session that held a message at the
  index holds one more afterwards, and saving the same message twice adds two rows.
\<close>

theorem save_message_appends:
  "chat_messages (save_message now sid rl cnt idx db) =
     chat_messages db @
       [\<lparr>message_id = next_message_id db, msg_session_id = sid, role = rl, content = cnt,
         msg_timestamp = now, message_index = idx\<rparr>] \<and>
   length (messages_at sid idx (save_message now sid rl cnt idx db)) =
     Suc (length (messages_at sid idx db)) \<and>
   length (messages_at sid idx
      (save_message now sid rl cnt idx (save_message now sid rl cnt idx db))) =
     Suc (Suc (length (messages_at sid idx db)))"
  by (simp add: save_message_def messages_at_def Let_def)

theorem save_message_appends_witness:
  "length (messages_at ''s1'' 0 fady_db) = 1 \<and>
   length (messages_at ''s1'' 0
      (save_message ''2025-01-11T12:00:09'' ''s1'' ''user'' ''Hello again'' 0 fady_db)) = 2"
proof -
  have a: "length (messages_at ''s1'' 0 fady_db) = 1"
    by code_simp
  show ?thesis
    using a
      save_message_appends [of "''2025-01-11T12:00:09''" "''s1''" "''user''" "''Hello again''" 0
        fady_db]
    by simp
qed

text \<open>
  The claim as stated fails: saving at index 0 of a session that holds a message at
  index 0 leaves two messages there, the old content among them.
\<close>

theorem save_message_upsert_counterexample:
  "map content (messages_at ''s1'' 0 fady_db) = [''Hello''] \<and>
   map content
     (messages_at ''s1'' 0
        (save_message ''2025-01-11T12:00:09'' ''s1'' ''user'' ''Hello again'' 0 fady_db)) =
     [''Hello'', ''Hello again'']"
  by code_simp

lemma find_session_None_filter:
  "find (\<lambda>s. session_id s = sid) ss = None \<Longrightarrow> filter (\<lambda>s. session_id s \<noteq> sid) ss = ss"
  by (induction ss) (auto split: if_splits)

text \<open>
  Claim C5. \<open>delete_session\<close> for a session id that is not stored, or called by a login
  other than the stored owner, returns false and leaves both tables as they were;
  called by the owner it returns true, and removes the session row and every message
  row of that session and no other row.
\<close>

theorem delete_session_fails_closed:
  "(find (\<lambda>s. session_id s = absent) (chat_sessions db) = None \<longrightarrow>
      delete_session absent caller db = (False, db)) \<and>
   (find (\<lambda>s. session_id s = sid) (chat_sessions db) = Some s \<and> user_login s \<noteq> caller \<longrightarrow>
      delete_session sid caller db = (False, db)) \<and>
   (find (\<lambda>s. session_id s = sid) (chat_sessions db) = Some s \<and> user_login s = owner \<longrightarrow>
      fst (delete_session sid owner db) \<and>
      chat_sessions (snd (delete_session sid owner db)) =
        filter (\<lambda>s. session_id s \<noteq> sid) (chat_sessions db) \<and>
      chat_messages (snd (delete_session sid owner db)) =
        filter (\<lambda>m. msg_session_id m \<noteq> sid) (chat_messages db))"
  by (auto simp: delete_session_def)

theorem delete_session_fails_closed_witness:
  "find (\<lambda>s. session_id s = ''s2'') (chat_sessions fady_db) = None \<and>
   find (\<lambda>s. session_id s = ''s1'') (chat_sessions fady_db) = Some (hd (chat_sessions fady_db)) \<and>
   user_login (hd (chat_sessions fady_db)) \<noteq> ''Eve'' \<and>
   user_login (hd (chat_sessions fady_db)) = ''Fady'' \<and>
   delete_session ''s2'' ''Eve'' fady_db = (False, fady_db) \<and>
   delete_session ''s1'' ''Eve'' fady_db = (False, fady_db) \<and>
   fst (delete_session ''s1'' ''Fady'' fady_db) \<and>
   chat_sessions (snd (delete_session ''s1'' ''Fady'' fady_db)) = [] \<and>
   chat_messages (snd (delete_session ''s1'' ''Fady'' fady_db)) = []"
proof -
  have a: "find (\<lambda>s. session_id s = ''s2'') (chat_sessions fady_db) = None"
    by (simp add: fady_db_def)
  have b: "find (\<lambda>s. session_id s = ''s1'') (chat_sessions fady_db) =
             Some (hd (chat_sessions fady_db))"
    by (simp add: fady_db_def)
  have c: "user_login (hd (chat_sessions fady_db)) \<noteq> ''Eve''"
    by (simp add: fady_db_def)
  have d: "user_login (hd (chat_sessions fady_db)) = ''Fady''"
    by (simp add: fady_db_def)
  have e: "filter (\<lambda>s. session_id s \<noteq> ''s1'') (chat_sessions fady_db) = []"
    "filter (\<lambda>m. msg_session_id m \<noteq> ''s1'') (chat_messages fady_db) = []"
    by (simp_all add: fady_db_def)
  show ?thesis
    using a b c d e
      delete_session_fails_closed [of "''s2''" fady_db "''Eve''" "''s1''"
        "hd (chat_sessions fady_db)" "''Fady''"]
    by simp
qed


section \<open>Proofs: titles\<close>

lemma remove_first_prefix_find:
  "remove_first_prefix ps l s =
     (case find (\<lambda>p. prefix p l) ps of None \<Rightarrow> s | Some p \<Rightarrow> strip (drop (length p) s))"
  by (induction ps) auto

lemma length_strip_le: "length (strip s) \<le> length s"
proof -
  have "length (dropWhile isspace (rev (dropWhile isspace s))) \<le>
        length (rev (dropWhile isspace s))"
    by (rule length_dropWhile_le)
  also have "\<dots> \<le> length s"
    by (simp add: length_dropWhile_le)
  finally show ?thesis by (simp add: strip_def)
qed

lemma length_truncate_title: "length (truncate_title s) \<le> 50"
  by (simp add: truncate_title_def)

lemma length_strip_lead_in: "length (strip_lead_in s) \<le> length s"
proof (cases "find (\<lambda>p. prefix p (lower s)) prefixes_to_remove")
  case None
  then show ?thesis by (simp add: strip_lead_in_def)
next
  case (Some p)
  have "length (strip (drop (length p) s)) \<le> length (drop (length p) s)"
    by (rule length_strip_le)
  then show ?thesis using Some by (simp add: strip_lead_in_def)
qed

lemma length_capitalize_first: "length (capitalize_first s) = length s"
  by (cases s) (simp_all add: capitalize_first_def)

text \<open>
  Claim C7, as the code has it. On ASCII text \<open>generate_session_title\<close> trims the
  input, truncates it to 50 characters (47 and an ellipsis), then strips the first
  matching lead-in phrase and trims again, then capitalizes the first letter, in that
  order; the title has at most 50 characters; an empty input gives the default
  \<open>Chat Session - \<close> with the date and time, and an input that is empty after the
  cleaning gives the default \<open>Chat - \<close> with the time.
\<close>

theorem generate_session_title_order:
  assumes "is_ascii first_message"
  shows "generate_session_title stamp_long stamp_short first_message =
           title_in_code_order stamp_long stamp_short first_message \<and>
         length (capitalize_first (strip_lead_in (truncate_title (strip first_message)))) \<le> 50"
proof -
  have "length (strip_lead_in (truncate_title (strip first_message))) \<le> 50"
    using length_strip_lead_in [of "truncate_title (strip first_message)"]
      length_truncate_title [of "strip first_message"] by linarith
  then have len:
    "length (capitalize_first (strip_lead_in (truncate_title (strip first_message)))) \<le> 50"
    by (simp only: length_capitalize_first)
  have eq: "generate_session_title stamp_long stamp_short first_message =
            title_in_code_order stamp_long stamp_short first_message"
    by (simp add: generate_session_title_def title_in_code_order_def Let_def
        remove_first_prefix_find strip_lead_in_def truncate_title_def capitalize_first_def)
  from eq len show ?thesis by (rule conjI)
qed

theorem generate_session_title_order_witness:
  "is_ascii price_question \<and>
   generate_session_title ''2025-01-11 12:01'' ''12:01'' price_question =
     title_in_code_order ''2025-01-11 12:01'' ''12:01'' price_question \<and>
   title_in_code_order ''2025-01-11 12:01'' ''12:01'' price_question =
     ''The current price of a Keysight 34401A ...''"
proof -
  have h: "is_ascii price_question"
    by code_simp
  have v: "title_in_code_order ''2025-01-11 12:01'' ''12:01'' price_question =
             ''The current price of a Keysight 34401A ...''"
    by code_simp
  show ?thesis
    using h v
      generate_session_title_order [OF h, of "''2025-01-11 12:01''" "''12:01''"]
    by simp
qed

text \<open>
  The claim as stated fails: on a question of 57 characters that opens with a lead-in,
  stripping before truncating leaves the 49 characters after the lead-in whole, while
  the code truncates first and returns 42 characters that end in the ellipsis.
\<close>

theorem generate_session_title_order_counterexample:
  "generate_session_title ''2025-01-11 12:01'' ''12:01'' price_question =
     ''The current price of a Keysight 34401A ...'' \<and>
   title_in_claimed_order ''2025-01-11 12:01'' ''12:01'' price_question =
     ''The current price of a Keysight 34401A multimeter''"
  by code_simp

section \<open>Proofs: logging a search\<close>

lemma parse_unparsable: "unparsable tcs \<Longrightarrow> parse_tool_calls tcs = JObj []"
  by (auto simp: unparsable_def parse_tool_calls_def split: list.splits tool_call.splits)

lemma extract_unparsable:
  assumes "chain_invoke q r = Adapter_returns tcs" and "unparsable tcs"
  shows "extract_product_info chain_invoke q r =
     Inr \<lparr>pd_product_brand = JStr [], pd_product_model = JStr [], pd_price_details = JArr [],
          pd_vendors = JArr [], pd_notes = JStr [], pd_verified_urls = JArr [],
          pd_source = ''database''\<rparr>"
  using assms
  by (simp add: extract_product_info_def parse_unparsable dict_get_def truthy_def Let_def)

lemma extract_raises:
  "chain_invoke q r = Adapter_raises \<Longrightarrow>
   extract_product_info chain_invoke q r = Inl AdapterError"
  by (simp add: extract_product_info_def)

text \<open>
  Claim C2, as the code has it. When the adapter returns output that cannot be read
  (no tool call, or arguments that are missing or no JSON), \<open>log_search\<close> appends a
  record whose brand, model and notes are empty, whose price details, vendors and URLs
  are the empty list, and whose source is \<open>database\<close>, and returns the positive id of
  that record. When the adapter raises, \<open>log_search\<close> returns \<open>-1\<close> and the table is
  as it was.
\<close>

theorem log_search_adapter_failure:
  "(chain_invoke query agent_response = Adapter_returns tcs \<and> unparsable tcs \<longrightarrow>
      log_search chain_invoke now query agent_response sid source_arg notes_arg db =
        (int (next_record_id db),
         db\<lparr>search_history := search_history db @ [empty_record now query sid db],
            search_history_seq := next_record_id db\<rparr>) \<and>
      0 < int (next_record_id db)) \<and>
   (chain_invoke query' agent_response' = Adapter_raises \<longrightarrow>
      log_search chain_invoke now query' agent_response' sid source_arg notes_arg db =
        (- 1, db))"
proof (intro conjI impI)
  assume "chain_invoke query agent_response = Adapter_returns tcs \<and> unparsable tcs"
  then show "log_search chain_invoke now query agent_response sid source_arg notes_arg db =
        (int (next_record_id db),
         db\<lparr>search_history := search_history db @ [empty_record now query sid db],
            search_history_seq := next_record_id db\<rparr>)"
    by (simp add: log_search_def log_search_insert_def extract_unparsable bind_text_def
        json_dumps_def empty_record_def Let_def)
  show "0 < int (next_record_id db)"
    by (simp add: next_record_id_def)
next
  assume "chain_invoke query' agent_response' = Adapter_raises"
  then show "log_search chain_invoke now query' agent_response' sid source_arg notes_arg db =
        (- 1, db)"
    by (simp add: log_search_def log_search_insert_def extract_raises)
qed

theorem log_search_adapter_failure_witness:
  "moody_adapter ''current price of DMM6500'' [] = Adapter_returns [] \<and> unparsable [] \<and>
   moody_adapter ''current price of DMM6500'' ''The DMM6500 lists at ...'' = Adapter_raises \<and>
   log_search moody_adapter ''2025-01-11 12:00:00'' ''current price of DMM6500'' [] ''s1''
     ''both'' [] empty_history_db =
     (1, empty_history_db
          \<lparr>search_history :=
             [empty_record ''2025-01-11 12:00:00'' ''current price of DMM6500'' ''s1''
                empty_history_db],
           search_history_seq := 1\<rparr>) \<and>
   log_search moody_adapter ''2025-01-11 12:00:00'' ''current price of DMM6500''
     ''The DMM6500 lists at ...'' ''s1'' ''both'' [] empty_history_db = (- 1, empty_history_db)"
proof -
  have a: "moody_adapter ''current price of DMM6500'' [] = Adapter_returns []"
    by (simp add: moody_adapter_def)
  have b: "unparsable []"
    by (simp add: unparsable_def)
  have c: "moody_adapter ''current price of DMM6500'' ''The DMM6500 lists at ...'' =
             Adapter_raises"
    by (simp add: moody_adapter_def)
  have n: "next_record_id empty_history_db = 1"
    by (simp add: next_record_id_def empty_history_db_def)
  have e: "search_history empty_history_db = []"
    by (simp add: empty_history_db_def)
  show ?thesis
    using a b c
      log_search_adapter_failure [of moody_adapter "''current price of DMM6500''" "[]" "[]"
        "''2025-01-11 12:00:00''" "''s1''" "''both''" "[]" empty_history_db
        "''current price of DMM6500''" "''The DMM6500 lists at ...''"]
    by (simp add: n e)
qed

text \<open>
  The claim as stated fails: with an adapter that raises, \<open>log_search\<close> returns \<open>-1\<close>
  and inserts nothing, although the store itself did not fail.
\<close>

theorem log_search_adapter_raises_counterexample:
  "log_search failing_adapter ''2025-01-11 12:00:00'' ''current price of DMM6500''
     ''The DMM6500 lists at ...'' ''s1'' ''both'' [] empty_history_db =
     (- 1, empty_history_db)"
  by (simp add: log_search_def log_search_insert_def extract_product_info_def
      failing_adapter_def)

lemma extract_source:
  "extract_product_info chain_invoke q r = Inr pd \<Longrightarrow>
   pd_source pd = (if truthy (pd_verified_urls pd) then ''web'' else ''database'')"
  by (auto simp: extract_product_info_def Let_def split: adapter_result.splits json.splits)

lemma truthy_urls: "url_list_or_null v \<Longrightarrow> truthy v = has_verified_url v"
  by (auto simp: url_list_or_null_def truthy_def has_verified_url_def
      split: json.splits list.splits)

lemma log_search_row:
  "log_search chain_invoke now q r sid src nts db = (rid, db') \<Longrightarrow> rid \<noteq> - 1 \<Longrightarrow>
   extract_product_info chain_invoke q r = Inr pd \<Longrightarrow>
   \<exists>row. search_history db' = search_history db @ [row] \<and> source row = Some (pd_source pd)"
  by (auto simp: log_search_def log_search_insert_def Let_def split: sum.splits)

text \<open>
  Claim C4. When \<open>log_search\<close> logs a search (it returns an id, not \<open>-1\<close>) and the
  extraction's \<open>verified_urls\<close> are a list or \<open>None\<close>, as \<open>DataInsights\<close> declares them,
  the one row it appends has source \<open>web\<close> if the list has an element and \<open>database\<close>
  otherwise. The argument \<open>source\<close> has no part in it: \<open>log_search\<close> gives the same
  result for every value of it, also for the one that \<open>log_interaction\<close> derives from
  keywords of the response.
\<close>

theorem source_from_verified_urls:
  assumes "log_search chain_invoke now q r sid src nts db = (rid, db')"
    and "rid \<noteq> - 1"
    and "extract_product_info chain_invoke q r = Inr pd"
    and "url_list_or_null (pd_verified_urls pd)"
  shows "(\<exists>row. search_history db' = search_history db @ [row] \<and>
            source row =
              Some (if has_verified_url (pd_verified_urls pd) then ''web'' else ''database'')) \<and>
         log_search chain_invoke now q r sid src' nts' db = (rid, db') \<and>
         log_interaction chain_invoke now q r sid db = db'"
proof -
  from log_search_row [OF assms(1,2,3)] obtain row where
    row: "search_history db' = search_history db @ [row]" "source row = Some (pd_source pd)"
    by blast
  have "pd_source pd = (if has_verified_url (pd_verified_urls pd) then ''web'' else ''database'')"
    using extract_source [OF assms(3)] truthy_urls [OF assms(4)] by simp
  with row have "\<exists>row. search_history db' = search_history db @ [row] \<and>
            source row =
              Some (if has_verified_url (pd_verified_urls pd) then ''web'' else ''database'')"
    by auto
  moreover have "log_search chain_invoke now q r sid src' nts' db = (rid, db')"
    using assms(1) by (simp add: log_search_def)
  moreover have "log_interaction chain_invoke now q r sid db = db'"
    using assms(1) by (simp add: log_interaction_def log_search_def)
  ultimately show ?thesis by blast
qed

theorem source_from_verified_urls_witness:
  "log_search listing_adapter ''2025-01-11 12:00:00'' ''current price of DMM6500''
     ''The DMM6500 lists at ...'' ''s1'' ''both'' [] empty_history_db = (1, listing_db) \<and>
   extract_product_info listing_adapter ''current price of DMM6500''
     ''The DMM6500 lists at ...'' = Inr listing_data \<and>
   url_list_or_null (pd_verified_urls listing_data) \<and>
   has_verified_url (pd_verified_urls listing_data) \<and>
   map source (search_history listing_db) = [Some ''web''] \<and>
   log_search listing_adapter ''2025-01-11 12:00:00'' ''current price of DMM6500''
     ''The DMM6500 lists at ...'' ''s1'' ''database'' ''none'' empty_history_db =
     (1, listing_db) \<and>
   log_interaction listing_adapter ''2025-01-11 12:00:00'' ''current price of DMM6500''
     ''The DMM6500 lists at ...'' ''s1'' empty_history_db = listing_db"
proof -
  have a: "log_search listing_adapter ''2025-01-11 12:00:00'' ''current price of DMM6500''
     ''The DMM6500 lists at ...'' ''s1'' ''both'' [] empty_history_db = (1, listing_db)"
    by code_simp
  have b: "(1::int) \<noteq> - 1"
    by simp
  have c: "extract_product_info listing_adapter ''current price of DMM6500''
     ''The DMM6500 lists at ...'' = Inr listing_data"
    by code_simp
  have d: "url_list_or_null (pd_verified_urls listing_data)"
    by code_simp
  have e: "has_verified_url (pd_verified_urls listing_data)"
    by code_simp
  have f: "map source (search_history listing_db) = [Some ''web'']"
    by code_simp
  show ?thesis
    using a c d e f source_from_verified_urls [OF a b c d, of "''database''" "''none''"]
    by simp
qed


section \<open>Proofs: retention\<close>





section \<open>Proofs: retrieving the history\<close>

















lemma parse_json_column_cases:
  "parse_json_column None = JArr []"
  "parse_json_column (Some Empty_text) = JArr []"
  "parse_json_column (Some Malformed_text) = JArr []"
  "parse_json_column (Some (Json_text v)) = v"
  by (simp_all add: parse_json_column_def json_loads_def)

text \<open>
  Claim C10 fails on the code. \<open>DataInsights\<close> lets the adapter answer \<open>null\<close> for the
  price details, \<open>log_search\<close> stores the text of \<open>null\<close>, and \<open>get_search_history\<close>
  returns the record with \<open>None\<close> for the field, which is no list. The fallback to the
  empty list covers a column that is \<open>NULL\<close>, empty or malformed, and passes every
  well-formed text on as the value it denotes (\<open>parse_json_column_cases\<close>).
\<close>

theorem null_price_details_not_a_list:
  "map price_details
     (search_history
        (log_interaction null_adapter ''2025-01-11 12:00:00'' ''current price of DMM6500''
           ''Nothing found.'' ''s1'' empty_history_db)) = [Some (Json_text JNull)] \<and>
   map price_details
     (get_search_history order_by_timestamp_desc (\<lambda>d. d) 50 0 None None
        (None :: string option) None None
        (log_interaction null_adapter ''2025-01-11 12:00:00'' ''current price of DMM6500''
           ''Nothing found.'' ''s1'' empty_history_db)) = [JNull]"
  by code_simp


section \<open>Proofs: the price range of the export\<close>

lemma those_price_values:
  "those (map price_value (map (\<lambda>n. JObj [(''value'', JInt n)]) ns)) = Some (map JInt ns)"
  by (induction ns) (simp_all add: price_value_def)

lemma those_numbers: "those (map as_number (map JInt ns)) = Some ns"
  by (induction ns) (simp_all add: as_number_def)

text \<open>
  On price entries that are dicts with a number under \<open>value\<close>, the three cases of the
  price range are as the specification has them.
\<close>

lemma format_price_range_numbers:
  "format_price_range fmt2f (JArr []) = Some ''No prices''"
  "format_price_range fmt2f (JArr [JObj [(''value'', JInt n)]]) = Some (''$'' @ fmt2f n)"
  "format_price_range fmt2f (JArr (map (\<lambda>n. JObj [(''value'', JInt n)]) (n1 # n2 # ns))) =
     Some (''$'' @ fmt2f (Min (set (n1 # n2 # ns))) @ '' - $'' @
           fmt2f (Max (set (n1 # n2 # ns))))"
proof -
  show "format_price_range fmt2f (JArr []) = Some ''No prices''"
    by (simp add: format_price_range_def truthy_def)
  show "format_price_range fmt2f (JArr [JObj [(''value'', JInt n)]]) = Some (''$'' @ fmt2f n)"
    by (simp add: format_price_range_def truthy_def py_iter_def price_value_def as_number_def)
  have "those (map price_value (map (\<lambda>n. JObj [(''value'', JInt n)]) (n1 # n2 # ns))) =
          Some (map JInt (n1 # n2 # ns))"
    by (rule those_price_values)
  moreover have "those (map as_number (map JInt (n1 # n2 # ns))) = Some (n1 # n2 # ns)"
    by (rule those_numbers)
  moreover have "fold min (n2 # ns) n1 = Min (set (n1 # n2 # ns))"
    by (simp only: Min.set_eq_fold)
  moreover have "fold max (n2 # ns) n1 = Max (set (n1 # n2 # ns))"
    by (simp only: Max.set_eq_fold)
  ultimately show
    "format_price_range fmt2f (JArr (map (\<lambda>n. JObj [(''value'', JInt n)]) (n1 # n2 # ns))) =
     Some (''$'' @ fmt2f (Min (set (n1 # n2 # ns))) @ '' - $'' @
           fmt2f (Max (set (n1 # n2 # ns))))"
    by (simp add: format_price_range_def truthy_def py_iter_def del: fold_simps)
qed

text \<open>
  Claim C8 fails on the code. The price entries that \<open>log_search\<close> stores are the
  strings of \<open>DataInsights.price_details\<close>; \<open>_format_price_range\<close> reads \<open>p['value']\<close>
  of each entry, which raises on a string, and \<open>export_to_csv\<close> then returns \<open>None\<close>:
  for the logged listing with its one price there is no file and no price range cell.
\<close>

theorem export_fails_on_logged_prices:
  "log_interaction listing_adapter ''2025-01-11 12:00:00'' ''current price of DMM6500''
     ''The DMM6500 lists at ...'' ''s1'' empty_history_db = listing_db \<and>
   map price_details (get_search_history order_by_timestamp_desc (\<lambda>d. d) 10000 0 None None
      (None :: string option) None None listing_db) = [JArr [JStr ''$1,200.00'']] \<and>
   format_price_range fmt2f (JArr [JStr ''$1,200.00'']) = None \<and>
   export_to_csv fmt2f order_by_timestamp_desc (\<lambda>d. d) ''search_history.csv'' 0 None None
      (None :: string option) None None listing_db = None"
proof -
  have a: "get_search_history order_by_timestamp_desc (\<lambda>d. d) 10000 0 None None
             (None :: string option) None None listing_db =
           [\<lparr>record_id = 1, timestamp = ''2025-01-11 12:00:00'',
             user_query = ''current price of DMM6500'', product_brand = Some ''Keithley'',
             product_model = Some ''DMM6500'', price_details = JArr [JStr ''$1,200.00''],
             vendors = JArr [JStr ''Example Instruments''],
             verified_urls = JArr [JStr ''https://example.com/dmm6500''],
             source = Some ''web'', hist_notes = Some ''one listing'',
             hist_session_id = Some ''s1''\<rparr>]"
    by code_simp
  have b: "format_price_range fmt2f (JArr [JStr ''$1,200.00'']) = None"
    by (simp add: format_price_range_def truthy_def py_iter_def price_value_def)
  have c: "log_interaction listing_adapter ''2025-01-11 12:00:00'' ''current price of DMM6500''
     ''The DMM6500 lists at ...'' ''s1'' empty_history_db = listing_db"
    by code_simp
  show ?thesis
    by (simp add: a b c export_to_csv_def csv_row_of_def py_len_def)
qed


end
